theory Spec2Isabelle
  imports Complex_Main "HOL-Library.Product_Lexorder"
begin

unbundle bit_operations_syntax

section \<open>Python exceptions\<close>

text \<open>
  Every exception the notebooks can meet is a subclass of Python's \<open>Exception\<close>.
  The ones the code itself can provoke have a constructor of their own; the ones a
  library call reports (a connection error of \<open>requests\<close>, a bad gzip stream, a decoding
  error of the grid reader, ...) are \<open>LibraryError\<close> with the library's message.
  Asynchronous interrupts (\<open>KeyboardInterrupt\<close>, \<open>SystemExit\<close>), which are not
  subclasses of \<open>Exception\<close>, are outside the model.
\<close>

datatype py_error =
    TypeError
  | ValueError
  | KeyError
  | IndexError
  | AttributeError
  | LibraryError string

section \<open>utilities.py\<close>

text \<open>
  \<^verbatim>\<open>
  def filter_bits(bitmask, bits_to_check=[13, 14]):
      flagged = []
      for bit in bits_to_check:
          flagged.append((bitmask & 2**bit) > 0)
      return not any(flagged)
  \<close>
  Python integers are unbounded: \<open>int\<close>. For a negative \<open>bit\<close> the power \<open>2**bit\<close> is a
  float, and \<open>&\<close> between an int and a float raises \<open>TypeError\<close>; the loop stops there.
\<close>

fun flag_bits :: "int \<Rightarrow> int list \<Rightarrow> bool list \<Rightarrow> py_error + bool list" where
  "flag_bits bitmask [] flagged = Inr flagged"
| "flag_bits bitmask (b # bs) flagged =
     (if b < 0 then Inl TypeError
      else flag_bits bitmask bs (flagged @ [(bitmask AND 2 ^ nat b) > 0]))"

definition py_any :: "bool list \<Rightarrow> bool" where
  "py_any bs = list_ex (\<lambda>b. b) bs"

definition filter_bits :: "int \<Rightarrow> int list \<Rightarrow> py_error + bool" where
  "filter_bits bitmask bits_to_check =
     (case flag_bits bitmask bits_to_check [] of
        Inl e \<Rightarrow> Inl e
      | Inr flagged \<Rightarrow> Inr (\<not> py_any flagged))"

definition bits_to_check_default :: "int list" where
  "bits_to_check_default = [13, 14]"

definition filter_bits_default :: "int \<Rightarrow> py_error + bool" where
  "filter_bits_default bitmask = filter_bits bitmask bits_to_check_default"

section \<open>download.py: the minute bucket\<close>

text \<open>
  \<^verbatim>\<open>
  if hourly:
      mrms_minute = 0
  else:
      mrms_minute = (minute // 2) * 2
  \<close>
  Python's \<open>//\<close> on integers is floor division, which is \<open>div\<close> on \<open>int\<close>.
\<close>

definition mrms_minute :: "bool \<Rightarrow> int \<Rightarrow> int" where
  "mrms_minute hourly minute = (if hourly then 0 else (minute div 2) * 2)"

section \<open>download.py: the grid URL\<close>

text \<open>
  Decimal rendering of integers, as Python's \<open>str\<close> and the format specification
  \<open>02d\<close> do it: \<open>02d\<close> pads with zeros to a total width of two, the sign included.
\<close>

definition digit_char :: "nat \<Rightarrow> char" where
  "digit_char d = ''0123456789'' ! d"

function str_nat :: "nat \<Rightarrow> string" where
  "str_nat n = (if n < 10 then [digit_char n] else str_nat (n div 10) @ [digit_char (n mod 10)])"
  by pat_completeness auto
termination
  by (relation "measure (\<lambda>n. n)") auto

declare str_nat.simps [simp del]

definition str_int :: "int \<Rightarrow> string" where
  "str_int i = (if i < 0 then ''-'' @ str_nat (nat (- i)) else str_nat (nat i))"

definition zfill :: "nat \<Rightarrow> string \<Rightarrow> string" where
  "zfill w s = replicate (w - length s) (CHR ''0'') @ s"

definition format_02d :: "int \<Rightarrow> string" where
  "format_02d i =
     (if i < 0 then ''-'' @ zfill 1 (str_nat (nat (- i))) else zfill 2 (str_nat (nat i)))"

text \<open>
  \<^verbatim>\<open>
  mrms_url = (
      "https://noaa-mrms-pds.s3.amazonaws.com/CONUS"
      f"/{var_name}"
      f"/{year}{month:02d}{day:02d}"
      f"/MRMS_{var_name}"
      f"_{year}{month:02d}{day:02d}-{hour:02d}{mrms_minute:02d}00"
      ".grib2.gz"
  )
  \<close>
  The year has no format specification: it is rendered by \<open>str\<close>.
\<close>

definition mrms_url :: "string \<Rightarrow> int \<Rightarrow> int \<Rightarrow> int \<Rightarrow> int \<Rightarrow> int \<Rightarrow> string" where
  "mrms_url var_name y mo d h mi =
     ''https://noaa-mrms-pds.s3.amazonaws.com/CONUS''
     @ ''/'' @ var_name
     @ ''/'' @ str_int y @ format_02d mo @ format_02d d
     @ ''/MRMS_'' @ var_name
     @ ''_'' @ str_int y @ format_02d mo @ format_02d d
     @ ''-'' @ format_02d h @ format_02d mi @ ''00''
     @ ''.grib2.gz''"

section \<open>download.py: data model\<close>

text \<open>
  A pandas \<open>Timestamp\<close> is an instant; the record holds the calendar fields of the
  instant in UTC, which are the fields \<open>dt.tz_convert('UTC')\<close> reads. Whether the
  time column carries a time zone is a property of the column (its dtype), kept in
  the table: \<open>tz_convert\<close> raises \<open>TypeError\<close> on a timestamp without one.
\<close>

record timestamp =
  year :: int
  month :: int
  day :: int
  hour :: int
  minute :: int
  second :: int
  nanosecond :: int

text \<open>A row of the time-series table \<open>ts_df\<close>, with the columns the code reads.\<close>

record row =
  node_id :: string
  lat :: real
  lon :: real
  time :: timestamp

record ts_table =
  rows :: "row list"
  tz_aware :: bool

text \<open>A float cell of a table or of a grid: a number or the missing-value marker.\<close>

datatype py_float = Finite real | NaN

text \<open>
  One record of the output table, \<open>{'node_id': ..., 'time': dt, var_name: var_value}\<close>.
  The variable name is assumed to differ from the two fixed column names.
\<close>

record out_row =
  out_node_id :: string
  out_time :: timestamp
  out_value :: py_float

text \<open>
  The parts of the world the function talks to. A data variable of a decoded grid
  is represented by what \<open>.interp(latitude=..., longitude=..., method='nearest').values\<close>
  gives at a latitude and a longitude; a dataset is the list of its data variables,
  in order, by name.
\<close>

type_synonym data_array = "real \<Rightarrow> real \<Rightarrow> py_error + py_float"
type_synonym dataset = "(string \<times> data_array) list"

datatype json_value =
    JNull
  | JBool bool
  | JNum real
  | JStr string
  | JArr "json_value list"
  | JObj "(string \<times> json_value) list"

record response =
  status_code :: int
  content :: "nat list"
  json :: "py_error + json_value"

record ppath =
  parent :: "string list"
  name :: string

record env =
  requests_get :: "string \<Rightarrow> py_error + response"
  gzip_read :: "nat list \<Rightarrow> py_error + nat list"
  open_dataset :: "nat list \<Rightarrow> py_error + dataset"
  str_format :: "string \<Rightarrow> string \<Rightarrow> py_error + string"

text \<open>What the function prints, requests and writes, in order.\<close>

datatype message =
    UrlMsg string
  | FailedDownloadMsg timestamp int
  | ErrorFetchingMsg string json_value
  | ExceptionMsg string py_error

datatype event =
    Print message
  | HttpGet string
  | ToCsv "string list" string "out_row list"

section \<open>download.py: download\_mrms\<close>

text \<open>
  \<open>ts_df.reset_index().groupby('time')\<close>: one group per distinct timestamp, the groups
  in increasing order of the timestamp, the rows of a group in the order of the table.
\<close>

definition ts_key :: "timestamp \<Rightarrow> int \<times> int \<times> int \<times> int \<times> int \<times> int \<times> int" where
  "ts_key t = (year t, month t, day t, hour t, minute t, second t, nanosecond t)"

definition groupby_time :: "row list \<Rightarrow> (timestamp \<times> row list) list" where
  "groupby_time rs =
     map (\<lambda>t. (t, filter (\<lambda>r. time r = t) rs)) (sort_key ts_key (remdups (map time rs)))"

definition tz_convert_utc :: "bool \<Rightarrow> timestamp \<Rightarrow> py_error + timestamp" where
  "tz_convert_utc aware dt = (if aware then Inr dt else Inl TypeError)"

text \<open>
  Python's \<open>%\<close> on floats. A finite double is modelled by the real number it denotes;
  a result of float arithmetic is rounded to the nearest double, ties to even
  (IEEE 754 binary64: 53 significant bits, exponents from -1022). The binary exponent
  of a positive real is found by halving or doubling. Missing and infinite
  longitudes, and overflow, are outside the model.
\<close>

function expo_up :: "real \<Rightarrow> nat" where
  "expo_up x = (if x < 2 then 0 else Suc (expo_up (x / 2)))"
  by pat_completeness auto
termination
proof (relation "measure (\<lambda>x. nat \<lceil>x\<rceil>)")
  show "wf (measure (\<lambda>x. nat \<lceil>x\<rceil>))" by simp
next
  fix x :: real
  assume "\<not> x < 2"
  then have "x / 2 \<le> x - 1" by simp
  then have "\<lceil>x / 2\<rceil> \<le> \<lceil>x - 1\<rceil>" by (rule ceiling_mono)
  moreover have "0 < \<lceil>x\<rceil>" using \<open>\<not> x < 2\<close> by linarith
  ultimately show "(x / 2, x) \<in> measure (\<lambda>x. nat \<lceil>x\<rceil>)"
    by simp
qed

declare expo_up.simps [simp del]

fun expo_down :: "nat \<Rightarrow> real \<Rightarrow> nat" where
  "expo_down 0 x = 0"
| "expo_down (Suc n) x = (if 1 \<le> x then 0 else Suc (expo_down n (2 * x)))"

definition exponent :: "real \<Rightarrow> int" where
  "exponent x = (if 1 \<le> x then int (expo_up x) else - int (expo_down 1022 x))"

definition pow2 :: "int \<Rightarrow> real" where
  "pow2 k = (if 0 \<le> k then 2 ^ nat k else 1 / 2 ^ nat (- k))"

definition round_half_even :: "real \<Rightarrow> int" where
  "round_half_even y =
     (let f = \<lfloor>y\<rfloor>; d = y - of_int f
      in if d < 1 / 2 then f else if 1 / 2 < d then f + 1 else if even f then f else f + 1)"

definition round_double :: "real \<Rightarrow> real" where
  "round_double x =
     (if x = 0 then 0
      else (let u = pow2 (exponent \<bar>x\<bar> - 52)
            in sgn x * (u * of_int (round_half_even (\<bar>x\<bar> / u)))))"

definition float_add :: "real \<Rightarrow> real \<Rightarrow> real" where
  "float_add x y = round_double (x + y)"

text \<open>
  The source's \<open>row['lon'] % 360\<close> is the float remainder of CPython and numpy:
  \<^verbatim>\<open>
  mod = fmod(vx, wx);
  if (mod) { if ((wx < 0) != (mod < 0)) mod += wx; }
  else mod = copysign(0.0, wx);
  \<close>
  C's \<open>fmod\<close> truncates the quotient towards zero and is exact; the addition rounds.
  The divisor is the non-zero constant 360.
\<close>

definition c_trunc :: "real \<Rightarrow> int" where
  "c_trunc q = (if 0 \<le> q then \<lfloor>q\<rfloor> else - \<lfloor>- q\<rfloor>)"

definition c_fmod :: "real \<Rightarrow> real \<Rightarrow> real" where
  "c_fmod x y = x - y * of_int (c_trunc (x / y))"

definition float_mod :: "real \<Rightarrow> real \<Rightarrow> real" where
  "float_mod x y =
     (let m = c_fmod x y
      in if m \<noteq> 0 then (if (y < 0) \<noteq> (m < 0) then float_add m y else m) else 0)"

definition ds_getitem :: "dataset \<Rightarrow> string \<Rightarrow> py_error + data_array" where
  "ds_getitem ds nm = (case map_of ds nm of None \<Rightarrow> Inl KeyError | Some a \<Rightarrow> Inr a)"

text \<open>
  The body of the inner loop, for one row:
  \<^verbatim>\<open>
  ds_var_name = list(ds.data_vars)[0]
  var_value = ds[ds_var_name].interp(
      latitude=row['lat'], longitude=row['lon'] % 360, method='nearest').values
  new_rows.append(pd.DataFrame(
      {'node_id': row['node_id'], 'time': dt, var_name: var_value}, index=[0]))
  \<close>
\<close>

definition sample_row :: "dataset \<Rightarrow> timestamp \<Rightarrow> row \<Rightarrow> py_error + out_row" where
  "sample_row ds dt r =
     (case ds of
        [] \<Rightarrow> Inl IndexError
      | (ds_var_name, _) # _ \<Rightarrow>
          (case ds_getitem ds ds_var_name of
             Inl e \<Rightarrow> Inl e
           | Inr arr \<Rightarrow>
               (case arr (lat r) (float_mod (lon r) 360) of
                  Inl e \<Rightarrow> Inl e
                | Inr var_value \<Rightarrow>
                    Inr \<lparr>out_node_id = node_id r, out_time = dt, out_value = var_value\<rparr>)))"

fun sample_rows ::
  "dataset \<Rightarrow> timestamp \<Rightarrow> row list \<Rightarrow> out_row list \<Rightarrow> py_error + out_row list" where
  "sample_rows ds dt [] new_rows = Inr new_rows"
| "sample_rows ds dt (r # rs) new_rows =
     (case sample_row ds dt r of
        Inl e \<Rightarrow> Inl e
      | Inr o_row \<Rightarrow> sample_rows ds dt rs (new_rows @ [o_row]))"

definition group_url :: "string \<Rightarrow> bool \<Rightarrow> timestamp \<Rightarrow> string" where
  "group_url var_name hourly dt_utm0 =
     mrms_url var_name (year dt_utm0) (month dt_utm0) (day dt_utm0) (hour dt_utm0)
       (mrms_minute hourly (minute dt_utm0))"

text \<open>
  The body of the outer loop for one group: the events it causes, and either the
  exception that leaves the function or the list \<open>new_rows\<close> after the group. A
  status other than 200 is the \<open>continue\<close>: \<open>new_rows\<close> is returned as it was.
\<close>

definition process_group ::
  "env \<Rightarrow> string \<Rightarrow> bool \<Rightarrow> bool \<Rightarrow> timestamp \<times> row list \<Rightarrow> out_row list
   \<Rightarrow> event list \<times> (py_error + out_row list)" where
  "process_group ev var_name hourly aware g new_rows =
     (case g of (dt, swot_df) \<Rightarrow>
       (case tz_convert_utc aware dt of
          Inl e \<Rightarrow> ([], Inl e)
        | Inr dt_utm0 \<Rightarrow>
           (let url = group_url var_name hourly dt_utm0 in
            (case requests_get ev url of
               Inl e \<Rightarrow> ([Print (UrlMsg url), HttpGet url], Inl e)
             | Inr resp \<Rightarrow>
                 if status_code resp \<noteq> 200
                 then ([Print (UrlMsg url), HttpGet url,
                        Print (FailedDownloadMsg dt_utm0 (status_code resp))],
                       Inr new_rows)
                 else
                   ([Print (UrlMsg url), HttpGet url],
                    (case gzip_read ev (content resp) of
                       Inl e \<Rightarrow> Inl e
                     | Inr grib_bytes \<Rightarrow>
                         (case open_dataset ev grib_bytes of
                            Inl e \<Rightarrow> Inl e
                          | Inr ds \<Rightarrow> sample_rows ds dt swot_df new_rows)))))))"

fun process_groups ::
  "env \<Rightarrow> string \<Rightarrow> bool \<Rightarrow> bool \<Rightarrow> (timestamp \<times> row list) list \<Rightarrow> out_row list
   \<Rightarrow> event list \<times> (py_error + out_row list)" where
  "process_groups ev var_name hourly aware [] new_rows = ([], Inr new_rows)"
| "process_groups ev var_name hourly aware (g # gs) new_rows =
     (case process_group ev var_name hourly aware g new_rows of
        (evs, Inl e) \<Rightarrow> (evs, Inl e)
      | (evs, Inr new_rows') \<Rightarrow>
          (case process_groups ev var_name hourly aware gs new_rows' of
             (evs', res) \<Rightarrow> (evs @ evs', res)))"

text \<open>
  \<^verbatim>\<open>
  precip_df = pd.concat(new_rows)
  precip_df.to_csv(
      precip_path.parent / precip_path.name.format(var_name=var_name), index=False)
  \<close>
  \<open>pd.concat\<close> of an empty list raises \<open>ValueError\<close>. The function returns nothing:
  its result is the list of events, and the exception if one leaves it.
\<close>

definition pd_concat :: "out_row list \<Rightarrow> py_error + out_row list" where
  "pd_concat new_rows = (if new_rows = [] then Inl ValueError else Inr new_rows)"

definition download_mrms ::
  "env \<Rightarrow> ts_table \<Rightarrow> string \<Rightarrow> ppath \<Rightarrow> bool \<Rightarrow> event list \<times> (py_error + unit)" where
  "download_mrms ev ts_df var_name precip_path hourly =
     (case process_groups ev var_name hourly (tz_aware ts_df) (groupby_time (rows ts_df)) [] of
        (evs, Inl e) \<Rightarrow> (evs, Inl e)
      | (evs, Inr new_rows) \<Rightarrow>
          (case pd_concat new_rows of
             Inl e \<Rightarrow> (evs, Inl e)
           | Inr precip_df \<Rightarrow>
               (case str_format ev (name precip_path) var_name of
                  Inl e \<Rightarrow> (evs, Inl e)
                | Inr file_name \<Rightarrow>
                    (evs @ [ToCsv (parent precip_path @ [file_name]) var_name precip_df],
                     Inr ()))))"

section \<open>download.py: fetch\_hydrocron\<close>

text \<open>
  \<^verbatim>\<open>
  hydrocron_url_template = (
      "https://soto.podaac.earthdatacloud.nasa.gov/hydrocron/v1/timeseries"
      "?feature=Node&feature_id={node_id}"
      "&start_time={start_time}&end_time={end_time}"
      "&output=csv"
      "&fields={fields}"
  )
  \<close>
  formatted with \<open>fields=','.join(fields)\<close>.
\<close>

fun str_join :: "string \<Rightarrow> string list \<Rightarrow> string" where
  "str_join sep [] = []"
| "str_join sep [x] = x"
| "str_join sep (x # y # ys) = x @ sep @ str_join sep (y # ys)"

definition hydrocron_url :: "string \<Rightarrow> string \<Rightarrow> string \<Rightarrow> string list \<Rightarrow> string" where
  "hydrocron_url nid start_time end_time field_names =
     ''https://soto.podaac.earthdatacloud.nasa.gov/hydrocron/v1/timeseries''
     @ ''?feature=Node&feature_id='' @ nid
     @ ''&start_time='' @ start_time @ ''&end_time='' @ end_time
     @ ''&output=csv''
     @ ''&fields='' @ str_join '','' field_names"

text \<open>
  What the code does with the decoded JSON body: \<open>.get('error')\<close> exists on a
  dictionary only and gives \<open>None\<close> for a missing key; \<open>x['key']\<close> raises \<open>KeyError\<close>
  for a key a dictionary lacks and \<open>TypeError\<close> on anything that is not a dictionary;
  \<open>StringIO\<close> accepts a string or \<open>None\<close>.
\<close>

fun json_get :: "json_value \<Rightarrow> string \<Rightarrow> py_error + json_value" where
  "json_get (JObj kvs) k = Inr (case map_of kvs k of None \<Rightarrow> JNull | Some v \<Rightarrow> v)"
| "json_get _ k = Inl AttributeError"

fun json_getitem :: "json_value \<Rightarrow> string \<Rightarrow> py_error + json_value" where
  "json_getitem (JObj kvs) k = (case map_of kvs k of None \<Rightarrow> Inl KeyError | Some v \<Rightarrow> Inr v)"
| "json_getitem _ k = Inl TypeError"

fun string_io :: "json_value \<Rightarrow> py_error + string" where
  "string_io (JStr s) = Inr s"
| "string_io JNull = Inr []"
| "string_io _ = Inl TypeError"

text \<open>
  The failure branch evaluates \<open>response.json().get('error')\<close> for its message; the
  success branch is
  \<^verbatim>\<open>
  hydrocron_df = pd.read_csv(
      StringIO(response.json()['results']['csv']),
      index_col=['node_id', 'time_str'], parse_dates=True, na_values=['no_data'])
  \<close>
  where \<open>read_csv\<close>, with these options, is a parameter of the model.
\<close>

definition error_payload :: "response \<Rightarrow> py_error + json_value" where
  "error_payload resp =
     (case json resp of Inl e \<Rightarrow> Inl e | Inr j \<Rightarrow> json_get j ''error'')"

definition parse_results :: "(string \<Rightarrow> py_error + 'df) \<Rightarrow> response \<Rightarrow> py_error + 'df" where
  "parse_results read_csv resp =
     (case json resp of
        Inl e \<Rightarrow> Inl e
      | Inr j \<Rightarrow>
          (case json_getitem j ''results'' of
             Inl e \<Rightarrow> Inl e
           | Inr res \<Rightarrow>
               (case json_getitem res ''csv'' of
                  Inl e \<Rightarrow> Inl e
                | Inr c \<Rightarrow>
                    (case string_io c of
                       Inl e \<Rightarrow> Inl e
                     | Inr csv_text \<Rightarrow> read_csv csv_text))))"

text \<open>
  The body of the \<open>try\<close>: the events, and the exception raised inside it or the value
  returned from it (\<open>None\<close> on a status other than 200, the table otherwise).
\<close>

definition fetch_try ::
  "(string \<Rightarrow> py_error + response) \<Rightarrow> (string \<Rightarrow> py_error + 'df) \<Rightarrow> string \<Rightarrow> string
   \<Rightarrow> event list \<times> (py_error + 'df option)" where
  "fetch_try http_get read_csv nid url =
     (case http_get url of
        Inl e \<Rightarrow> ([HttpGet url], Inl e)
      | Inr resp \<Rightarrow>
          if status_code resp \<noteq> 200
          then (case error_payload resp of
                  Inl e \<Rightarrow> ([HttpGet url], Inl e)
                | Inr err \<Rightarrow> ([HttpGet url, Print (ErrorFetchingMsg nid err)], Inr None))
          else (case parse_results read_csv resp of
                  Inl e \<Rightarrow> ([HttpGet url], Inl e)
                | Inr hydrocron_df \<Rightarrow> ([HttpGet url], Inr (Some hydrocron_df))))"

text \<open>
  \<open>node_id = info['node_id']\<close> is read before the \<open>try\<close>: a dictionary without the key
  raises \<open>KeyError\<close> to the caller. Every exception of the body is caught by
  \<open>except Exception\<close>, printed, and turned into the result \<open>None\<close>.
\<close>

definition fetch_hydrocron ::
  "(string \<Rightarrow> py_error + response) \<Rightarrow> (string \<Rightarrow> py_error + 'df) \<Rightarrow> (string \<rightharpoonup> string)
   \<Rightarrow> string \<Rightarrow> string \<Rightarrow> string list \<Rightarrow> event list \<times> (py_error + 'df option)" where
  "fetch_hydrocron http_get read_csv info start_time end_time field_names =
     (case info ''node_id'' of
        None \<Rightarrow> ([], Inl KeyError)
      | Some nid \<Rightarrow>
          (case fetch_try http_get read_csv nid (hydrocron_url nid start_time end_time field_names) of
             (evs, Inl e) \<Rightarrow> (evs @ [Print (ExceptionMsg nid e)], Inr None)
           | (evs, Inr res) \<Rightarrow> (evs, Inr res)))"

section \<open>plot.py: plot\_heatmap\<close>

text \<open>
  \<^verbatim>\<open>
  pivot = (hydrocron_df.reset_index()
           .pivot(index='time', columns='node_id', values=column)
           .resample('1D').mean().dropna(axis=0, how='all'))
  pivot[pivot < 0] = np.nan
  \<close>
  The chain of pandas calls is a parameter of the model: it raises or gives the
  (time \<open>\<times>\<close> node) matrix of daily means, a list of rows of float cells. The comparison
  \<open>pivot < 0\<close> is false on a missing cell; the assignment sets the cells where it is
  true to the missing-value marker. The result is the matrix that is drawn.
\<close>

fun lt_zero :: "py_float \<Rightarrow> bool" where
  "lt_zero (Finite v) = (v < 0)"
| "lt_zero NaN = False"

definition mask_negative :: "py_float list list \<Rightarrow> py_float list list" where
  "mask_negative pivot = map (map (\<lambda>c. if lt_zero c then NaN else c)) pivot"

definition plot_heatmap ::
  "('t \<Rightarrow> string \<Rightarrow> py_error + py_float list list) \<Rightarrow> 't \<Rightarrow> string
   \<Rightarrow> py_error + py_float list list" where
  "plot_heatmap pivot_daily_mean hydrocron_df column =
     (case pivot_daily_mean hydrocron_df column of
        Inl e \<Rightarrow> Inl e
      | Inr pivot \<Rightarrow> Inr (mask_negative pivot))"

section \<open>The URL pattern of the specification\<close>

text \<open>
  The pattern as the specification writes it,
  \<open>.../CONUS/<var_name>/<YYYYMMDD>/MRMS_<var_name>_<YYYYMMDD>-<HHMM>00.grib2.gz\<close>,
  with fields of a fixed number of decimal digits. These definitions follow the
  specification, not the code; the code's rendering is \<open>str_int\<close> and \<open>format_02d\<close>.
\<close>

definition two_digits :: "int \<Rightarrow> string" where
  "two_digits n = [digit_char (nat n div 10), digit_char (nat n mod 10)]"

definition four_digits :: "int \<Rightarrow> string" where
  "four_digits n =
     [digit_char (nat n div 1000), digit_char (nat n div 100 mod 10),
      digit_char (nat n div 10 mod 10), digit_char (nat n mod 10)]"

definition url_pattern :: "string \<Rightarrow> string \<Rightarrow> string \<Rightarrow> string \<Rightarrow> string \<Rightarrow> string \<Rightarrow> string" where
  "url_pattern var_name yyyy mm dd hh mi =
     ''https://noaa-mrms-pds.s3.amazonaws.com/CONUS/'' @ var_name @ ''/'' @ yyyy @ mm @ dd
     @ ''/MRMS_'' @ var_name @ ''_'' @ yyyy @ mm @ dd @ ''-'' @ hh @ mi @ ''00.grib2.gz''"

definition padded_url :: "string \<Rightarrow> bool \<Rightarrow> timestamp \<Rightarrow> string" where
  "padded_url var_name hourly dt =
     url_pattern var_name (four_digits (year dt)) (two_digits (month dt)) (two_digits (day dt))
       (two_digits (hour dt)) (two_digits (mrms_minute hourly (minute dt)))"

text \<open>The timestamp 2021-06-01T13:05:00Z.\<close>

definition ts_example :: timestamp where
  "ts_example = \<lparr>year = 2021, month = 6, day = 1, hour = 13, minute = 5, second = 0, nanosecond = 0\<rparr>"

section \<open>The floor of a timestamp, and example inputs\<close>


text \<open>Whether an event is the writing of the output file.\<close>

fun is_to_csv :: "event \<Rightarrow> bool" where
  "is_to_csv (ToCsv p v rs) = True"
| "is_to_csv (Print m) = False"
| "is_to_csv (HttpGet u) = False"

text \<open>
  Two rows at 2021-06-01T13:05:00Z, and a world where every request gets the same
  status, decompression and decoding succeed, and the grid's value at a point is the
  sum of its coordinates.
\<close>

definition row_a :: row where
  "row_a = \<lparr>node_id = ''A'', lat = 40, lon = - 105, time = ts_example\<rparr>"

definition row_b :: row where
  "row_b = \<lparr>node_id = ''B'', lat = 35, lon = - 10, time = ts_example\<rparr>"

definition grid_example :: data_array where
  "grid_example la lo = Inr (Finite (la + lo))"

definition env_status :: "int \<Rightarrow> env" where
  "env_status code =
     \<lparr>requests_get = (\<lambda>u. Inr \<lparr>status_code = code, content = [31, 139], json = Inl ValueError\<rparr>),
      gzip_read = (\<lambda>b. Inr b),
      open_dataset = (\<lambda>b. Inr [(''unknown'', grid_example)]),
      str_format = (\<lambda>t v. Inr (v @ ''.csv''))\<rparr>"

definition path_example :: ppath where
  "path_example = \<lparr>parent = [''data''], name = ''{var_name}.csv''\<rparr>"

text \<open>
  Example worlds for \<open>fetch_hydrocron\<close> and \<open>plot_heatmap\<close>: a server answering every
  request with a given status and an error payload, a refused connection, a reader
  that keeps the text, and a pivot that is already a matrix.
\<close>

definition resp_example :: "int \<Rightarrow> response" where
  "resp_example code =
     \<lparr>status_code = code, content = [],
      json = Inr (JObj [(''error'', JStr ''not found'')])\<rparr>"

definition get_status :: "int \<Rightarrow> string \<Rightarrow> py_error + response" where
  "get_status code url = Inr (resp_example code)"

definition get_refused :: "string \<Rightarrow> py_error + response" where
  "get_refused url = Inl (LibraryError ''ConnectionError'')"

definition read_csv_lines :: "string \<Rightarrow> py_error + string list" where
  "read_csv_lines csv_text = Inr [csv_text]"

definition pivot_given :: "py_float list list \<Rightarrow> string \<Rightarrow> py_error + py_float list list" where
  "pivot_given df column = Inr df"

definition info_example :: "string \<rightharpoonup> string" where
  "info_example = [''node_id'' \<mapsto> ''N1'']"

definition pivot_example :: "py_float list list" where
  "pivot_example = [[Finite (- 1), Finite 2], [NaN, Finite 0]]"

section \<open>Properties of filter_bits\<close>

lemma flag_bits_nonneg:
  "\<forall>b\<in>set bs. 0 \<le> b \<Longrightarrow>
   flag_bits bitmask bs flagged =
     Inr (flagged @ map (\<lambda>b. (bitmask AND 2 ^ nat b) > 0) bs)"
  by (induction bs arbitrary: flagged) simp_all

lemma and_power_pos_iff:
  "((k::int) AND 2 ^ n) > 0 \<longleftrightarrow> k AND 2 ^ n \<noteq> 0"
proof -
  have "0 \<le> k AND 2 ^ n" by simp
  then show ?thesis by linarith
qed

lemma py_any_map:
  "py_any (map f xs) \<longleftrightarrow> (\<exists>x\<in>set xs. f x)"
  by (simp add: py_any_def list_ex_iff)

text \<open>
  Claim C10. For every integer bitmask and every list of (0-indexed, hence non-negative)
  bit positions, \<open>filter_bits\<close> returns true exactly when every listed bit of the
  bitmask is clear, that is \<open>bitmask AND 2^b = 0\<close> for each position \<open>b\<close>; with the
  default list it returns true exactly when bits 13 and 14 are both clear.
\<close>

theorem filter_bits_iff_all_clear:
  assumes "\<forall>b\<in>set bits. 0 \<le> b"
  shows "filter_bits bitmask bits = Inr (\<forall>b\<in>set bits. bitmask AND 2 ^ nat b = 0)
       \<and> filter_bits_default bitmask = Inr (\<not> bit bitmask 13 \<and> \<not> bit bitmask 14)"
proof
  show "filter_bits bitmask bits = Inr (\<forall>b\<in>set bits. bitmask AND 2 ^ nat b = 0)"
    using assms
    by (simp add: filter_bits_def flag_bits_nonneg py_any_map and_power_pos_iff)
next
  have d: "\<forall>b\<in>set bits_to_check_default. 0 \<le> b"
    by (simp add: bits_to_check_default_def)
  have "filter_bits_default bitmask =
          Inr (\<forall>b\<in>set bits_to_check_default. bitmask AND 2 ^ nat b = 0)"
    using d
    by (simp add: filter_bits_default_def filter_bits_def flag_bits_nonneg py_any_map
        and_power_pos_iff)
  then show "filter_bits_default bitmask = Inr (\<not> bit bitmask 13 \<and> \<not> bit bitmask 14)"
    by (simp add: bits_to_check_default_def and_exp_eq_0_iff_not_bit)
qed

theorem filter_bits_iff_all_clear_witness:
  "filter_bits 8192 [0, 13] = Inr False
 \<and> filter_bits 5 [1, 3] = Inr True
 \<and> filter_bits_default 16384 = Inr False
 \<and> filter_bits_default 8191 = Inr True"
proof -
  have h: "\<forall>b\<in>set [0, 13 :: int]. 0 \<le> b" by simp
  have h': "\<forall>b\<in>set [1, 3 :: int]. 0 \<le> b" by simp
  have b13: "bit (8192 :: int) 13" "\<not> bit (8192 :: int) 0"
    by (simp_all add: bit_iff_odd)
  have c5: "\<not> bit (5 :: int) 1" "\<not> bit (5 :: int) 3"
    by (simp_all add: bit_iff_odd)
  have d1: "bit (16384 :: int) 14" "\<not> bit (16384 :: int) 13"
    by (simp_all add: bit_iff_odd)
  have d2: "\<not> bit (8191 :: int) 14" "\<not> bit (8191 :: int) 13"
    by (simp_all add: bit_iff_odd)
  show ?thesis
    using filter_bits_iff_all_clear [OF h, of 8192]
      filter_bits_iff_all_clear [OF h', of 5]
      filter_bits_iff_all_clear [OF h, of 16384]
      filter_bits_iff_all_clear [OF h, of 8191]
      b13 c5 d1 d2
    by (simp add: and_exp_eq_0_iff_not_bit)
qed

section \<open>Properties of the minute bucket\<close>

text \<open>
  Claim C3. The minute of the bucketed key is 0 when the hourly flag is set, whatever the
  input minute; otherwise it is the largest even number less than or equal to the input
  minute: it is even, at most the minute, less than two below it, and no even number up
  to the minute exceeds it. Minute 47 gives 46 and minute 0 gives 0.
\<close>

theorem mrms_minute_bucket:
  "mrms_minute True m = 0
   \<and> even (mrms_minute False m) \<and> mrms_minute False m \<le> m \<and> m < mrms_minute False m + 2
   \<and> (\<forall>e. even e \<and> e \<le> m \<longrightarrow> e \<le> mrms_minute False m)
   \<and> mrms_minute False 47 = 46 \<and> mrms_minute False 0 = 0"
  unfolding mrms_minute_def by (simp, presburger)

theorem mrms_minute_bucket_witness:
  "mrms_minute True 47 = 0 \<and> even (46::int) \<and> (46::int) \<le> 47 \<and> 46 \<le> mrms_minute False 47
   \<and> mrms_minute False 47 \<le> 47"
  using mrms_minute_bucket [of 47] by simp

section \<open>Properties of the URL\<close>

lemma str_nat_one: "n < 10 \<Longrightarrow> str_nat n = [digit_char n]"
  by (simp add: str_nat.simps)

lemma str_nat_two: "10 \<le> n \<Longrightarrow> n < 100 \<Longrightarrow> str_nat n = [digit_char (n div 10), digit_char (n mod 10)]"
  by (subst str_nat.simps) (simp add: str_nat_one)

lemma str_nat_three:
  "100 \<le> n \<Longrightarrow> n < 1000 \<Longrightarrow>
   str_nat n = [digit_char (n div 100), digit_char (n div 10 mod 10), digit_char (n mod 10)]"
  by (subst str_nat.simps) (simp add: str_nat_two div_mult2_eq [symmetric])

lemma str_nat_four:
  "1000 \<le> n \<Longrightarrow> n < 10000 \<Longrightarrow>
   str_nat n = [digit_char (n div 1000), digit_char (n div 100 mod 10),
                digit_char (n div 10 mod 10), digit_char (n mod 10)]"
  by (subst str_nat.simps) (simp add: str_nat_three div_mult2_eq [symmetric])

lemma format_02d_two_digits:
  assumes "0 \<le> i" "i < 100"
  shows "format_02d i = two_digits i"
proof (cases "i < 10")
  case True
  then have "nat i < 10" "nat i div 10 = 0" using assms by simp_all
  then show ?thesis using assms
    by (simp add: format_02d_def two_digits_def str_nat_one zfill_def digit_char_def)
next
  case False
  then have "10 \<le> nat i" "nat i < 100" using assms by simp_all
  then show ?thesis using assms
    by (simp add: format_02d_def two_digits_def str_nat_two zfill_def)
qed

lemma str_int_four_digits:
  assumes "1000 \<le> y" "y \<le> 9999"
  shows "str_int y = four_digits y"
proof -
  have "1000 \<le> nat y" "nat y < 10000" using assms by simp_all
  then show ?thesis using assms
    by (simp add: str_int_def four_digits_def str_nat_four)
qed

lemma mrms_minute_range:
  "0 \<le> m \<Longrightarrow> m \<le> 59 \<Longrightarrow> 0 \<le> mrms_minute h m \<and> mrms_minute h m < 100"
  unfolding mrms_minute_def by (simp, presburger)

text \<open>
  Claim C7, amended. For every timestamp with calendar fields in range and every
  variable name, the URL requested is the fixed pattern with month, day, hour and the
  bucketed minute as two zero-padded decimal digits each, and the year as \<open>str\<close> renders
  it, without padding; for the years 1000 to 9999 that is the four-digit field \<open>YYYY\<close>
  of the pattern.
\<close>

theorem group_url_pattern:
  assumes "1 \<le> month dt" "month dt \<le> 12" "1 \<le> day dt" "day dt \<le> 31"
    and "0 \<le> hour dt" "hour dt \<le> 23" "0 \<le> minute dt" "minute dt \<le> 59"
  shows "group_url var_name hourly dt =
           url_pattern var_name (str_int (year dt)) (two_digits (month dt)) (two_digits (day dt))
             (two_digits (hour dt)) (two_digits (mrms_minute hourly (minute dt)))
       \<and> (1000 \<le> year dt \<and> year dt \<le> 9999 \<longrightarrow>
            group_url var_name hourly dt = padded_url var_name hourly dt)"
proof -
  have m: "format_02d (month dt) = two_digits (month dt)"
    using assms by (intro format_02d_two_digits) simp_all
  have d: "format_02d (day dt) = two_digits (day dt)"
    using assms by (intro format_02d_two_digits) simp_all
  have h: "format_02d (hour dt) = two_digits (hour dt)"
    using assms by (intro format_02d_two_digits) simp_all
  have mi: "format_02d (mrms_minute hourly (minute dt)) = two_digits (mrms_minute hourly (minute dt))"
    using mrms_minute_range [of "minute dt" hourly] assms by (intro format_02d_two_digits) simp_all
  have 1: "group_url var_name hourly dt =
           url_pattern var_name (str_int (year dt)) (two_digits (month dt)) (two_digits (day dt))
             (two_digits (hour dt)) (two_digits (mrms_minute hourly (minute dt)))"
    by (simp add: group_url_def mrms_url_def url_pattern_def m d h mi)
  show ?thesis
    using 1 by (simp add: padded_url_def str_int_four_digits)
qed

theorem group_url_pattern_witness:
  "group_url ''PrecipRate'' False ts_example =
     ''https://noaa-mrms-pds.s3.amazonaws.com/CONUS/PrecipRate/20210601/MRMS_PrecipRate_20210601-130400.grib2.gz''"
  using group_url_pattern [of ts_example "''PrecipRate''" False]
  by (simp add: ts_example_def padded_url_def url_pattern_def two_digits_def four_digits_def
      digit_char_def mrms_minute_def str_int_def str_nat.simps)

text \<open>
  Claim C7 as stated fails for a year below 1000: the year 999 is rendered \<open>999\<close>, not
  \<open>0999\<close>, since \<open>{year}\<close> carries no width.
\<close>

theorem year_not_padded_counterexample:
  "group_url ''PrecipRate'' False (ts_example\<lparr>year := 999\<rparr>)
     \<noteq> padded_url ''PrecipRate'' False (ts_example\<lparr>year := 999\<rparr>)"
  by (simp add: group_url_def padded_url_def mrms_url_def url_pattern_def ts_example_def
      str_int_def str_nat.simps four_digits_def digit_char_def)

section \<open>Properties of the sampling\<close>


lemma round_double_350: "round_double 350 = 350"
  by (simp add: round_double_def exponent_def expo_up.simps pow2_def round_half_even_def Let_def)

lemma round_double_255: "round_double 255 = 255"
  by (simp add: round_double_def exponent_def expo_up.simps pow2_def round_half_even_def Let_def)

lemma c_fmod_minus_10: "c_fmod (- 10) 360 = - 10"
  by (simp add: c_fmod_def c_trunc_def)

lemma float_mod_minus_10: "float_mod (- 10) 360 = 350"
  by (simp add: float_mod_def c_fmod_minus_10 float_add_def round_double_350)


lemma float_mod_minus_105: "float_mod (- 105) 360 = 255"
  by (simp add: float_mod_def c_fmod_def c_trunc_def float_add_def round_double_255)

lemma float_mod_370: "float_mod 370 360 = 10"
  by (simp add: float_mod_def c_fmod_def c_trunc_def)



lemma pow2_pos: "0 < pow2 k"
  by (simp add: pow2_def)

















section \<open>Properties of download\_mrms\<close>

lemma groupby_time_single:
  "time r1 = t \<Longrightarrow> time r2 = t \<Longrightarrow> groupby_time [r1, r2] = [(t, [r1, r2])]"
  by (simp add: groupby_time_def)

text \<open>
  Claim C1. For a table of exactly two rows that share the timestamp 2021-06-01T13:05:00Z,
  and a successful download of that timestamp's bucket (status 200, decompressed and
  decoded, the lookup answering at both points), \<open>download_mrms\<close> makes one request and
  writes exactly two rows, both with the timestamp 2021-06-01T13:05:00Z, the first with
  the value of the grid's first variable at the first row's latitude and longitude, the
  second at the second row's.
\<close>

theorem download_mrms_two_rows:
  assumes "rows ts_df = [r1, r2]" "time r1 = ts_example" "time r2 = ts_example"
    and "tz_aware ts_df"
    and "requests_get ev (group_url var_name hourly ts_example) = Inr resp"
    and "status_code resp = 200"
    and "gzip_read ev (content resp) = Inr grib_bytes"
    and "open_dataset ev grib_bytes = Inr ((nm, arr) # ds)"
    and "arr (lat r1) (float_mod (lon r1) 360) = Inr v1"
    and "arr (lat r2) (float_mod (lon r2) 360) = Inr v2"
    and "str_format ev (name precip_path) var_name = Inr file_name"
  shows "download_mrms ev ts_df var_name precip_path hourly =
           ([Print (UrlMsg (group_url var_name hourly ts_example)),
             HttpGet (group_url var_name hourly ts_example),
             ToCsv (parent precip_path @ [file_name]) var_name
               [\<lparr>out_node_id = node_id r1, out_time = ts_example, out_value = v1\<rparr>,
                \<lparr>out_node_id = node_id r2, out_time = ts_example, out_value = v2\<rparr>]],
            Inr ())"
  using assms
  by (simp add: download_mrms_def groupby_time_single process_group_def tz_convert_utc_def
      sample_row_def ds_getitem_def pd_concat_def Let_def)

theorem download_mrms_two_rows_witness:
  "download_mrms (env_status 200) \<lparr>rows = [row_a, row_b], tz_aware = True\<rparr> ''PrecipRate''
     path_example False =
   ([Print (UrlMsg (group_url ''PrecipRate'' False ts_example)),
     HttpGet (group_url ''PrecipRate'' False ts_example),
     ToCsv [''data'', ''PrecipRate.csv''] ''PrecipRate''
       [\<lparr>out_node_id = ''A'', out_time = ts_example, out_value = Finite 295\<rparr>,
        \<lparr>out_node_id = ''B'', out_time = ts_example, out_value = Finite 385\<rparr>]],
    Inr ())"
  using download_mrms_two_rows [of "\<lparr>rows = [row_a, row_b], tz_aware = True\<rparr>" row_a row_b
      "env_status 200" "''PrecipRate''" False
      "\<lparr>status_code = 200, content = [31, 139], json = Inl ValueError\<rparr>"
      "[31, 139]" "''unknown''" grid_example "[]" "Finite 295" "Finite 385"
      path_example "''PrecipRate.csv''"]
  by (simp add: row_a_def row_b_def env_status_def grid_example_def path_example_def float_mod_minus_10 float_mod_minus_105)






lemma process_group_no_csv:
  "process_group ev v h aware g acc = (evs, res) \<Longrightarrow> \<not> list_ex is_to_csv evs"
  by (auto simp: process_group_def Let_def split: sum.splits if_splits prod.splits)

lemma process_groups_no_csv:
  "process_groups ev v h aware gs acc = (evs, res) \<Longrightarrow> \<not> list_ex is_to_csv evs"
proof (induction gs arbitrary: acc evs res)
  case Nil
  then show ?case by simp
next
  case (Cons g gs)
  obtain e1 r1 where g: "process_group ev v h aware g acc = (e1, r1)"
    by (cases "process_group ev v h aware g acc")
  note n1 = process_group_no_csv [OF g]
  show ?case
  proof (cases r1)
    case (Inl e)
    with Cons.prems g n1 show ?thesis by simp
  next
    case (Inr acc1)
    obtain e2 r2 where gs: "process_groups ev v h aware gs acc1 = (e2, r2)"
      by (cases "process_groups ev v h aware gs acc1")
    from Cons.IH [OF gs] n1 Cons.prems g Inr gs show ?thesis
      by (auto simp: list_ex_iff)
  qed
qed





section \<open>Failed downloads\<close>

lemma process_group_failed:
  assumes "requests_get ev (group_url var_name hourly dt) = Inr resp"
    and "status_code resp \<noteq> 200"
  shows "process_group ev var_name hourly True (dt, swot_df) new_rows =
           ([Print (UrlMsg (group_url var_name hourly dt)),
             HttpGet (group_url var_name hourly dt),
             Print (FailedDownloadMsg dt (status_code resp))],
            Inr new_rows)"
  using assms by (simp add: process_group_def tz_convert_utc_def Let_def)



lemma process_groups_all_failed:
  assumes "\<forall>(dt, g)\<in>set gs. \<exists>resp. requests_get ev (group_url var_name hourly dt) = Inr resp
             \<and> status_code resp \<noteq> 200"
  shows "snd (process_groups ev var_name hourly True gs acc) = Inr acc"
  using assms
proof (induction gs)
  case Nil
  then show ?case by simp
next
  case (Cons g gs)
  obtain dt sw where dg: "g = (dt, sw)" by (cases g)
  from Cons.prems dg obtain resp where
    r: "requests_get ev (group_url var_name hourly dt) = Inr resp" "status_code resp \<noteq> 200"
    by auto
  have "snd (process_groups ev var_name hourly True gs acc) = Inr acc"
    using Cons by simp
  then show ?case
    using process_group_failed [OF r, of sw acc] dg
    by (auto split: prod.splits)
qed

lemma groupby_time_keys:
  "\<forall>(dt, g)\<in>set (groupby_time rs). dt \<in> time ` set rs"
  by (auto simp: groupby_time_def)

text \<open>
  Claim C9. If the input table is empty, or every bucket's request is answered with a
  status other than 200, no row is accumulated, the concatenation raises \<open>ValueError\<close>,
  and no output file is written.
\<close>

theorem no_rows_raises:
  assumes "rows ts_df = []
         \<or> (tz_aware ts_df
            \<and> (\<forall>r\<in>set (rows ts_df). \<exists>resp.
                  requests_get ev (group_url var_name hourly (time r)) = Inr resp
                  \<and> status_code resp \<noteq> 200))"
  shows "snd (download_mrms ev ts_df var_name precip_path hourly) = Inl ValueError
       \<and> \<not> list_ex is_to_csv (fst (download_mrms ev ts_df var_name precip_path hourly))"
proof -
  let ?pg = "process_groups ev var_name hourly (tz_aware ts_df) (groupby_time (rows ts_df)) []"
  have res: "snd ?pg = Inr []"
    using assms
  proof
    assume "rows ts_df = []"
    then show ?thesis by (simp add: groupby_time_def)
  next
    assume a: "tz_aware ts_df
            \<and> (\<forall>r\<in>set (rows ts_df). \<exists>resp.
                  requests_get ev (group_url var_name hourly (time r)) = Inr resp
                  \<and> status_code resp \<noteq> 200)"
    then have "\<forall>(dt, g)\<in>set (groupby_time (rows ts_df)). \<exists>resp.
        requests_get ev (group_url var_name hourly dt) = Inr resp \<and> status_code resp \<noteq> 200"
      using groupby_time_keys [of "rows ts_df"] by fastforce
    from process_groups_all_failed [OF this] a show ?thesis by simp
  qed
  obtain evs r where pg: "?pg = (evs, r)" by (cases ?pg)
  with res have r: "r = Inr []" by simp
  from process_groups_no_csv [OF pg] pg r show ?thesis
    by (simp add: download_mrms_def pd_concat_def)
qed

theorem no_rows_raises_witness:
  "download_mrms (env_status 404) \<lparr>rows = [], tz_aware = True\<rparr> ''PrecipRate'' path_example False
     = ([], Inl ValueError)
   \<and> snd (download_mrms (env_status 404) \<lparr>rows = [row_a, row_b], tz_aware = True\<rparr>
            ''PrecipRate'' path_example False) = Inl ValueError
   \<and> \<not> list_ex is_to_csv
        (fst (download_mrms (env_status 404) \<lparr>rows = [row_a, row_b], tz_aware = True\<rparr>
            ''PrecipRate'' path_example False))"
proof -
  have e: "download_mrms (env_status 404) \<lparr>rows = [], tz_aware = True\<rparr> ''PrecipRate''
             path_example False = ([], Inl ValueError)"
    by (simp add: download_mrms_def groupby_time_def pd_concat_def)
  have h: "rows \<lparr>rows = [row_a, row_b], tz_aware = True\<rparr> = []
         \<or> (tz_aware \<lparr>rows = [row_a, row_b], tz_aware = True\<rparr>
            \<and> (\<forall>r\<in>set (rows \<lparr>rows = [row_a, row_b], tz_aware = True\<rparr>). \<exists>resp.
                  requests_get (env_status 404) (group_url ''PrecipRate'' False (time r)) = Inr resp
                  \<and> status_code resp \<noteq> 200))"
    by (simp add: env_status_def)
  from no_rows_raises [OF h, of path_example] e show ?thesis by simp
qed

section \<open>Properties of fetch\_hydrocron\<close>

text \<open>
  Claim C5. Once the request is made (the descriptor holds a node identifier), for every
  response with a status other than 200, for every exception raised by the request, and
  for every exception raised while the response is parsed, \<open>fetch_hydrocron\<close> returns
  \<open>None\<close> and raises nothing to its caller.
\<close>

theorem fetch_hydrocron_returns_none:
  assumes "info ''node_id'' = Some nid"
    and "(\<exists>e. http_get (hydrocron_url nid start_time end_time field_names) = Inl e)
       \<or> (\<exists>resp. http_get (hydrocron_url nid start_time end_time field_names) = Inr resp
            \<and> (status_code resp \<noteq> 200 \<or> (\<exists>e. parse_results read_csv resp = Inl e)))"
  shows "snd (fetch_hydrocron http_get read_csv info start_time end_time field_names) = Inr None"
  using assms
  by (auto simp: fetch_hydrocron_def fetch_try_def split: sum.splits prod.splits)

theorem fetch_hydrocron_returns_none_witness:
  "fetch_hydrocron (get_status 404) read_csv_lines info_example ''t0'' ''t1'' [''wse'', ''width'']
     = ([HttpGet (hydrocron_url ''N1'' ''t0'' ''t1'' [''wse'', ''width'']),
         Print (ErrorFetchingMsg ''N1'' (JStr ''not found''))],
        Inr None)
   \<and> snd (fetch_hydrocron get_refused read_csv_lines info_example ''t0'' ''t1'' [''wse''])
       = Inr None"
proof -
  have i: "info_example ''node_id'' = Some ''N1''" by (simp add: info_example_def)
  have a: "(\<exists>e. get_status 404 (hydrocron_url ''N1'' ''t0'' ''t1'' [''wse'', ''width'']) = Inl e)
       \<or> (\<exists>resp. get_status 404 (hydrocron_url ''N1'' ''t0'' ''t1'' [''wse'', ''width'']) = Inr resp
            \<and> (status_code resp \<noteq> 200 \<or> (\<exists>e. parse_results read_csv_lines resp = Inl e)))"
    by (simp add: get_status_def resp_example_def)
  have b: "(\<exists>e. get_refused (hydrocron_url ''N1'' ''t0'' ''t1'' [''wse'']) = Inl e)
       \<or> (\<exists>resp. get_refused (hydrocron_url ''N1'' ''t0'' ''t1'' [''wse'']) = Inr resp
            \<and> (status_code resp \<noteq> 200 \<or> (\<exists>e. parse_results read_csv_lines resp = Inl e)))"
    by (simp add: get_refused_def)
  have c: "fetch_hydrocron (get_status 404) read_csv_lines info_example ''t0'' ''t1'' [''wse'', ''width'']
     = ([HttpGet (hydrocron_url ''N1'' ''t0'' ''t1'' [''wse'', ''width'']),
         Print (ErrorFetchingMsg ''N1'' (JStr ''not found''))],
        Inr None)"
    by (simp add: fetch_hydrocron_def fetch_try_def info_example_def resp_example_def
        error_payload_def get_status_def)
  from fetch_hydrocron_returns_none
         [of info_example "''N1''" "get_status 404" "''t0''" "''t1''" "[''wse'', ''width'']"
            read_csv_lines, OF i a]
       fetch_hydrocron_returns_none
         [of info_example "''N1''" get_refused "''t0''" "''t1''" "[''wse'']" read_csv_lines, OF i b]
       c
  show ?thesis by simp
qed

section \<open>Properties of plot\_heatmap\<close>

lemma mask_negative_nth:
  "i < length pivot \<Longrightarrow> j < length (pivot ! i) \<Longrightarrow>
   mask_negative pivot ! i ! j = (if lt_zero (pivot ! i ! j) then NaN else pivot ! i ! j)"
  by (simp add: mask_negative_def)

text \<open>
  Claim C8. When the pivoting, daily resampling and dropping of empty rows give a
  matrix, the matrix that \<open>plot_heatmap\<close> draws has the same shape, every strictly
  negative entry replaced by the missing-value marker, and every other entry, the
  non-negative ones and the missing ones, as it was.
\<close>

theorem plot_heatmap_masks_negative:
  assumes "pivot_daily_mean hydrocron_df column = Inr pivot"
    and "i < length pivot" "j < length (pivot ! i)"
  shows "\<exists>m. plot_heatmap pivot_daily_mean hydrocron_df column = Inr m
           \<and> length m = length pivot \<and> length (m ! i) = length (pivot ! i)
           \<and> (\<forall>v. pivot ! i ! j = Finite v \<and> v < 0 \<longrightarrow> m ! i ! j = NaN)
           \<and> (\<forall>v. pivot ! i ! j = Finite v \<and> 0 \<le> v \<longrightarrow> m ! i ! j = Finite v)
           \<and> (pivot ! i ! j = NaN \<longrightarrow> m ! i ! j = NaN)"
proof -
  have "plot_heatmap pivot_daily_mean hydrocron_df column = Inr (mask_negative pivot)"
    using assms(1) by (simp add: plot_heatmap_def)
  moreover have "length (mask_negative pivot) = length pivot"
    by (simp add: mask_negative_def)
  moreover have "length (mask_negative pivot ! i) = length (pivot ! i)"
    using assms(2) by (simp add: mask_negative_def)
  moreover have "\<forall>v. pivot ! i ! j = Finite v \<and> v < 0 \<longrightarrow> mask_negative pivot ! i ! j = NaN"
    using assms(2,3) by (simp add: mask_negative_nth)
  moreover have "\<forall>v. pivot ! i ! j = Finite v \<and> 0 \<le> v \<longrightarrow> mask_negative pivot ! i ! j = Finite v"
    using assms(2,3) by (simp add: mask_negative_nth)
  moreover have "pivot ! i ! j = NaN \<longrightarrow> mask_negative pivot ! i ! j = NaN"
    using assms(2,3) by (simp add: mask_negative_nth)
  ultimately show ?thesis by blast
qed

theorem plot_heatmap_masks_negative_witness:
  "plot_heatmap pivot_given pivot_example ''wse'' = Inr [[NaN, Finite 2], [NaN, Finite 0]]
   \<and> pivot_example ! 0 ! 0 = Finite (- 1) \<and> pivot_example ! 0 ! 1 = Finite 2"
proof -
  have p: "pivot_given pivot_example ''wse'' = Inr pivot_example"
    by (simp add: pivot_given_def)
  have l: "0 < length pivot_example" "0 < length (pivot_example ! 0)"
    "1 < length (pivot_example ! 0)"
    by (simp_all add: pivot_example_def)
  have v: "plot_heatmap pivot_given pivot_example ''wse'' = Inr [[NaN, Finite 2], [NaN, Finite 0]]"
    by (simp add: plot_heatmap_def mask_negative_def pivot_example_def pivot_given_def)
  from plot_heatmap_masks_negative
         [of pivot_given pivot_example "''wse''" pivot_example 0 0, OF p l(1) l(2)]
       plot_heatmap_masks_negative
         [of pivot_given pivot_example "''wse''" pivot_example 0 1, OF p l(1) l(3)]
       v
  show ?thesis by (simp add: pivot_example_def)
qed

end
